theory Spec2Isabelle
  imports Complex_Main "HOL-Library.Multiset"
begin

section \<open>Dates, times and timezones\<close>

text \<open>
  The scheduler works on Python \<open>date\<close>, \<open>time\<close>, \<open>timedelta\<close> and timezone-aware
  \<open>datetime\<close> values. A \<open>date\<close> is the number of days since 1970-01-01, a \<open>time\<close> the
  number of microseconds since midnight, a \<open>timedelta\<close> a number of microseconds
  (Python's resolution). An aware \<open>datetime\<close> carries its wall-clock reading (the
  naive part, microseconds since 1970-01-01T00:00 on the wall clock) and the UTC offset
  of its \<open>tzinfo\<close>. Python compares and subtracts aware datetimes as instants, and
  reads \<open>.time()\<close>, \<open>.hour\<close>, \<open>.date()\<close> and \<open>.weekday()\<close> off the wall clock.
  All datetimes of the model are aware (the data model of section 3 of the
  specification); the range limits of Python's \<open>datetime\<close> are not modelled.
\<close>

type_synonym date = int
type_synonym time = int
type_synonym timedelta = int

definition us_per_minute :: int where
  "us_per_minute = 60000000"

definition us_per_hour :: int where
  "us_per_hour = 3600000000"

definition us_per_day :: int where
  "us_per_day = 86400000000"

definition timedelta_minutes :: "int \<Rightarrow> timedelta" where
  "timedelta_minutes n = n * us_per_minute"

record datetime =
  wall :: int
  utcoffset :: timedelta

definition instant :: "datetime \<Rightarrow> int" where
  "instant dt = wall dt - utcoffset dt"

definition dt_lt :: "datetime \<Rightarrow> datetime \<Rightarrow> bool" where
  "dt_lt a b \<longleftrightarrow> instant a < instant b"

definition dt_le :: "datetime \<Rightarrow> datetime \<Rightarrow> bool" where
  "dt_le a b \<longleftrightarrow> instant a \<le> instant b"

definition dt_gt :: "datetime \<Rightarrow> datetime \<Rightarrow> bool" where
  "dt_gt a b \<longleftrightarrow> instant a > instant b"

definition dt_sub :: "datetime \<Rightarrow> datetime \<Rightarrow> timedelta" where
  "dt_sub a b = instant a - instant b"

text \<open>Adding a \<open>timedelta\<close> moves the wall clock and keeps the \<open>tzinfo\<close> (pytz does
  not normalise).\<close>

definition dt_add :: "datetime \<Rightarrow> timedelta \<Rightarrow> datetime" where
  "dt_add a d = a\<lparr>wall := wall a + d\<rparr>"

definition dt_date :: "datetime \<Rightarrow> date" where
  "dt_date a = wall a div us_per_day"

definition dt_time :: "datetime \<Rightarrow> time" where
  "dt_time a = wall a mod us_per_day"

definition time_hour :: "time \<Rightarrow> int" where
  "time_hour t = t div us_per_hour"

text \<open>\<open>date.weekday()\<close>: Monday is 0, Sunday is 6; 1970-01-01 was a Thursday.\<close>

definition date_weekday :: "date \<Rightarrow> int" where
  "date_weekday d = (d + 3) mod 7"

definition dt_weekday :: "datetime \<Rightarrow> int" where
  "dt_weekday a = date_weekday (dt_date a)"

text \<open>A pytz timezone gives the UTC offset in force at a wall-clock reading;
  \<open>timezone.localize\<close> attaches it to a naive \<open>datetime.combine(date, time)\<close>.\<close>

type_synonym tzinfo = "int \<Rightarrow> timedelta"

definition combine :: "date \<Rightarrow> time \<Rightarrow> int" where
  "combine d t = d * us_per_day + t"

definition localize :: "tzinfo \<Rightarrow> int \<Rightarrow> datetime" where
  "localize tz naive = \<lparr>wall = naive, utcoffset = tz naive\<rparr>"

section \<open>The shared models\<close>

datatype error =
    ValueError string
  | ValidationError
  | KeyError
  | ParserError
  | UnknownTimeZoneError
  | AttributeError
  | CollaboratorError

datatype EventStatus = SCHEDULED | CANCELLED | COMPLETED | RESCHEDULED

record UserPreferences =
  preferred_meeting_duration :: int
  work_start_time :: time
  work_end_time :: time
  timezone :: string
  buffer_time :: int
  max_meetings_per_day :: int

definition UserPreferences_default :: UserPreferences where
  "UserPreferences_default =
     \<lparr>preferred_meeting_duration = 60,
      work_start_time = 9 * us_per_hour,
      work_end_time = 17 * us_per_hour,
      timezone = ''UTC'',
      buffer_time = 15,
      max_meetings_per_day = 8\<rparr>"

record event_dict =
  d_event_id :: "string option"
  d_title :: "string option"
  d_start_time :: "string option"
  d_end_time :: "string option"
  d_status :: "string option"

text \<open>\<open>UserContext\<close>: the events of the context are dictionaries of strings.\<close>

record UserContext =
  user_id :: string
  email :: string
  preferences :: UserPreferences
  current_timezone :: string
  existing_events :: "event_dict list"

text \<open>\<open>TimeSlot\<close>: the confidence is a Python float, taken here as a real number
  (rounding is not modelled). The validators of the class run at construction.\<close>

record TimeSlot =
  start_time :: datetime
  end_time :: datetime
  confidence :: real

definition TimeSlot_new :: "datetime \<Rightarrow> datetime \<Rightarrow> real \<Rightarrow> error + TimeSlot" where
  "TimeSlot_new s e c =
     (if dt_le e s then Inl ValidationError
      else if \<not> (0 \<le> c \<and> c \<le> 1) then Inl ValidationError
      else Inr \<lparr>start_time = s, end_time = e, confidence = c\<rparr>)"

text \<open>\<open>Event\<close>: the scheduler reads the time span and the status; of the other
  fields the identifier and the title are kept.\<close>

record Event =
  event_id :: "string option"
  title :: string
  event_start_time :: datetime
  event_end_time :: datetime
  event_status :: EventStatus

definition Event_new ::
  "string option \<Rightarrow> string \<Rightarrow> datetime \<Rightarrow> datetime \<Rightarrow> EventStatus \<Rightarrow> error + Event" where
  "Event_new i t s e st =
     (if dt_le e s then Inl ValidationError
      else Inr \<lparr>event_id = i, title = t, event_start_time = s, event_end_time = e,
                event_status = st\<rparr>)"

section \<open>The conflict filter\<close>

definition slots_overlap :: "TimeSlot \<Rightarrow> Event \<Rightarrow> bool" where
  "slots_overlap slot event \<longleftrightarrow>
     dt_lt (start_time slot) (event_end_time event) \<and>
     dt_gt (end_time slot) (event_start_time event)"

text \<open>The inner loop of \<open>_filter_conflicting_slots\<close> over the existing events: its
  result is the final value of \<open>is_available\<close>; \<open>continue\<close> and \<open>break\<close> are the
  recursive call and the early \<open>False\<close>.\<close>

fun is_available :: "TimeSlot \<Rightarrow> UserPreferences \<Rightarrow> Event list \<Rightarrow> bool" where
  "is_available slot prefs [] = True"
| "is_available slot prefs (event # events) =
     (if event_status event = CANCELLED then is_available slot prefs events
      else if slots_overlap slot event then False
      else
        (let buffer = timedelta_minutes (buffer_time prefs) in
         if dt_sub (start_time slot) (event_end_time event) < buffer \<and>
            dt_gt (start_time slot) (event_end_time event) then False
         else if dt_sub (event_start_time event) (end_time slot) < buffer \<and>
            dt_gt (event_start_time event) (end_time slot) then False
         else is_available slot prefs events))"

fun filter_conflicting_slots ::
  "TimeSlot list \<Rightarrow> Event list \<Rightarrow> UserPreferences \<Rightarrow> TimeSlot list" where
  "filter_conflicting_slots [] events prefs = []"
| "filter_conflicting_slots (slot # potential_slots) events prefs =
     (if is_available slot prefs events
      then slot # filter_conflicting_slots potential_slots events prefs
      else filter_conflicting_slots potential_slots events prefs)"

text \<open>The three rejection conditions as section 4.3 of the specification words them,
  on the instants of the slot and of a busy interval.\<close>

definition spec_overlap :: "TimeSlot \<Rightarrow> Event \<Rightarrow> bool" where
  "spec_overlap slot E \<longleftrightarrow>
     instant (start_time slot) < instant (event_end_time E) \<and>
     instant (end_time slot) > instant (event_start_time E)"

definition spec_buffer_before :: "int \<Rightarrow> TimeSlot \<Rightarrow> Event \<Rightarrow> bool" where
  "spec_buffer_before buffer_minutes slot E \<longleftrightarrow>
     instant (start_time slot) > instant (event_end_time E) \<and>
     instant (start_time slot) - instant (event_end_time E) < buffer_minutes * us_per_minute"

definition spec_buffer_after :: "int \<Rightarrow> TimeSlot \<Rightarrow> Event \<Rightarrow> bool" where
  "spec_buffer_after buffer_minutes slot E \<longleftrightarrow>
     instant (event_start_time E) > instant (end_time slot) \<and>
     instant (event_start_time E) - instant (end_time slot) < buffer_minutes * us_per_minute"

definition spec_rejected :: "int \<Rightarrow> Event list \<Rightarrow> TimeSlot \<Rightarrow> bool" where
  "spec_rejected buffer_minutes events slot \<longleftrightarrow>
     (\<exists>E \<in> set events. event_status E \<noteq> CANCELLED \<and>
        (spec_overlap slot E \<or> spec_buffer_before buffer_minutes slot E \<or>
         spec_buffer_after buffer_minutes slot E))"

section \<open>The slot generator\<close>

text \<open>
  The \<open>while\<close> loop of \<open>_generate_day_slots\<close>. It appends one slot per round and moves
  the cursor by the duration and the buffer; with a duration and a buffer whose sum is
  not positive the cursor never passes the end of the working day, so the loop is a
  partial function: \<open>None\<close> is a run that does not return. A slot whose end is not
  after its start is refused by the validator of \<open>TimeSlot\<close>, which ends the loop with
  the error.
\<close>

partial_function (option) day_slots_loop ::
  "timedelta \<Rightarrow> timedelta \<Rightarrow> datetime \<Rightarrow> TimeSlot list \<Rightarrow> datetime \<Rightarrow>
     (error + TimeSlot list) option" where
  "day_slots_loop slot_duration buffer_duration work_end slots current_time =
     (if dt_le (dt_add current_time slot_duration) work_end then
        (let slot_end = dt_add current_time slot_duration in
         case TimeSlot_new current_time slot_end (8 / 10) of
           Inl e \<Rightarrow> Some (Inl e)
         | Inr slot \<Rightarrow>
             day_slots_loop slot_duration buffer_duration work_end (slots @ [slot])
               (dt_add slot_end buffer_duration))
      else Some (Inr slots))"

declare day_slots_loop.simps [code]

definition generate_day_slots ::
  "date \<Rightarrow> int \<Rightarrow> UserPreferences \<Rightarrow> tzinfo \<Rightarrow> (error + TimeSlot list) option" where
  "generate_day_slots target_date duration prefs tz =
     (let work_start = localize tz (combine target_date (work_start_time prefs));
          work_end = localize tz (combine target_date (work_end_time prefs));
          current_time = work_start;
          slot_duration = timedelta_minutes duration;
          buffer_duration = timedelta_minutes (buffer_time prefs)
      in day_slots_loop slot_duration buffer_duration work_end [] current_time)"

text \<open>The \<open>while\<close> loop of \<open>_generate_potential_slots\<close> over the dates of the range.\<close>

function potential_slots_loop ::
  "date \<Rightarrow> int \<Rightarrow> UserPreferences \<Rightarrow> tzinfo \<Rightarrow> bool \<Rightarrow> TimeSlot list \<Rightarrow> date \<Rightarrow>
     (error + TimeSlot list) option" where
  "potential_slots_loop end_date duration prefs tz exclude_weekends slots current_date =
     (if current_date \<le> end_date then
        (if exclude_weekends \<and> date_weekday current_date \<ge> 5 then
           potential_slots_loop end_date duration prefs tz exclude_weekends slots
             (current_date + 1)
         else
           (case generate_day_slots current_date duration prefs tz of
              None \<Rightarrow> None
            | Some (Inl e) \<Rightarrow> Some (Inl e)
            | Some (Inr day_slots) \<Rightarrow>
                potential_slots_loop end_date duration prefs tz exclude_weekends
                  (slots @ day_slots) (current_date + 1)))
      else Some (Inr slots))"
  by pat_completeness auto
termination
  by (relation "measure (\<lambda>(end_date, _, _, _, _, _, current_date).
        nat (end_date + 1 - current_date))") auto

declare potential_slots_loop.simps [simp del]

definition generate_potential_slots ::
  "date \<Rightarrow> date \<Rightarrow> int \<Rightarrow> UserPreferences \<Rightarrow> tzinfo \<Rightarrow> bool \<Rightarrow>
     (error + TimeSlot list) option" where
  "generate_potential_slots start_date end_date duration prefs tz exclude_weekends =
     potential_slots_loop end_date duration prefs tz exclude_weekends [] start_date"

section \<open>The slot scorer\<close>

definition total_seconds :: "timedelta \<Rightarrow> real" where
  "total_seconds d = real_of_int d / 1000000"

definition calculate_slot_score ::
  "TimeSlot \<Rightarrow> datetime option \<Rightarrow> UserPreferences \<Rightarrow> tzinfo \<Rightarrow> real" where
  "calculate_slot_score slot preferred_time prefs tz =
     (let score = 5 / 10;
          score = (case preferred_time of
                     None \<Rightarrow> score
                   | Some p \<Rightarrow>
                       (let time_diff = \<bar>total_seconds (dt_sub (start_time slot) p)\<bar>;
                            time_bonus = max 0 (5 / 10 - time_diff / (24 * 3600))
                        in score + time_bonus));
          slot_time = dt_time (start_time slot);
          score = (if work_start_time prefs \<le> slot_time \<and>
                      slot_time \<le> work_end_time prefs
                   then score + 2 / 10 else score);
          score = (if time_hour slot_time < 12 then score + 1 / 10 else score);
          score = (if time_hour slot_time < 8 \<or> time_hour slot_time > 17
                   then score - 2 / 10 else score);
          score = (if 11 \<le> time_hour slot_time \<and> time_hour slot_time \<le> 13
                   then score - 1 / 10 else score);
          score = (if dt_weekday (start_time slot) < 5 then score + 1 / 10 else score)
      in max 0 (min 1 score))"

text \<open>The \<open>for\<close> loop of \<open>_score_time_slots\<close> rewrites the confidence of each slot and
  appends it.\<close>

fun scored_slots_loop ::
  "TimeSlot list \<Rightarrow> datetime option \<Rightarrow> UserPreferences \<Rightarrow> tzinfo \<Rightarrow> TimeSlot list" where
  "scored_slots_loop [] preferred_time prefs tz = []"
| "scored_slots_loop (slot # slots) preferred_time prefs tz =
     (let score = calculate_slot_score slot preferred_time prefs tz
      in slot\<lparr>confidence := min score 1\<rparr> #
         scored_slots_loop slots preferred_time prefs tz)"

text \<open>\<open>list.sort(key=..., reverse=True)\<close> is a stable sort in descending order of the
  key: the stable sort of the library on the negated key.\<close>

definition sort_reverse :: "('a \<Rightarrow> real) \<Rightarrow> 'a list \<Rightarrow> 'a list" where
  "sort_reverse key xs = sort_key (\<lambda>x. - key x) xs"

definition score_time_slots ::
  "TimeSlot list \<Rightarrow> datetime option \<Rightarrow> UserPreferences \<Rightarrow> tzinfo \<Rightarrow> TimeSlot list" where
  "score_time_slots slots preferred_time prefs tz =
     sort_reverse confidence (scored_slots_loop slots preferred_time prefs tz)"

text \<open>The scoring formula as section 4.4 of the specification words it.\<close>

definition clamp :: "real \<Rightarrow> real \<Rightarrow> real \<Rightarrow> real" where
  "clamp x lo hi = max lo (min hi x)"

definition spec_S :: "TimeSlot \<Rightarrow> datetime option \<Rightarrow> time \<Rightarrow> time \<Rightarrow> real" where
  "spec_S slot preferred_instant work_start work_end =
     0.5
     + (case preferred_instant of
          None \<Rightarrow> 0
        | Some p \<Rightarrow>
            max 0 (0.5 - \<bar>real_of_int (instant (start_time slot) - instant p) / 1000000\<bar> / 86400))
     + (if work_start \<le> dt_time (start_time slot) \<and> dt_time (start_time slot) \<le> work_end
        then 0.2 else 0)
     + (if time_hour (dt_time (start_time slot)) < 12 then 0.1 else 0)
     - (if time_hour (dt_time (start_time slot)) < 8 \<or> time_hour (dt_time (start_time slot)) > 17
        then 0.2 else 0)
     - (if 11 \<le> time_hour (dt_time (start_time slot)) \<and>
           time_hour (dt_time (start_time slot)) \<le> 13 then 0.1 else 0)
     + (if dt_weekday (start_time slot) \<in> {0, 1, 2, 3, 4} then 0.1 else 0)"

section \<open>The calendar collaborators\<close>

text \<open>
  The network side of a collaborator is its environment: what the request for a date
  range yields (an exception after the retries, or the payload with every item already
  through \<open>_convert_google_event\<close> or \<open>_convert_outlook_event\<close>, which give \<open>None\<close> for an
  item that does not convert), what a creation, an update, a cancellation or a lookup
  yields. The \<open>world\<close> also holds the clock, the timezone database of pytz and the date
  parser of dateutil (\<open>None\<close> where they raise).
\<close>

record world =
  today :: date
  tz_database :: "string \<Rightarrow> tzinfo option"
  parse :: "string \<Rightarrow> datetime option"
  google_request_events :: "date \<Rightarrow> date \<Rightarrow> error + Event option list"
  outlook_request_events :: "date \<Rightarrow> date \<Rightarrow> error + Event option list option"
  google_create_event :: "string \<Rightarrow> datetime \<Rightarrow> datetime \<Rightarrow> error + Event"
  outlook_create_event :: "string \<Rightarrow> datetime \<Rightarrow> datetime \<Rightarrow> error + Event"
  google_update_event :: "string \<Rightarrow> (string \<times> string) list \<Rightarrow> error + Event"
  outlook_update_event :: "string \<Rightarrow> (string \<times> string) list \<Rightarrow> error + Event"
  google_cancel_event :: "string \<Rightarrow> error + bool"
  outlook_cancel_event :: "string \<Rightarrow> error + bool"
  google_get_event :: "string \<Rightarrow> Event option"
  outlook_get_event :: "string \<Rightarrow> Event option"

text \<open>The loop of \<open>get_events\<close> that keeps the converted items.\<close>

fun converted_events :: "Event option list \<Rightarrow> Event list" where
  "converted_events [] = []"
| "converted_events (None # events) = converted_events events"
| "converted_events (Some converted_event # events) =
     converted_event # converted_events events"

text \<open>\<open>GoogleCalendarAPI.get_events\<close> and \<open>OutlookAPI.get_events\<close>: the whole body is
  in a \<open>try\<close> whose handler logs and returns the empty list.\<close>

definition google_get_events :: "world \<Rightarrow> date \<Rightarrow> date \<Rightarrow> Event list" where
  "google_get_events w start_date end_date =
     (case google_request_events w start_date end_date of
        Inl e \<Rightarrow> []
      | Inr events \<Rightarrow> converted_events events)"

definition outlook_get_events :: "world \<Rightarrow> date \<Rightarrow> date \<Rightarrow> Event list" where
  "outlook_get_events w start_date end_date =
     (case outlook_request_events w start_date end_date of
        Inl e \<Rightarrow> []
      | Inr None \<Rightarrow> []
      | Inr (Some events) \<Rightarrow> converted_events events)"

section \<open>The busy-interval aggregator\<close>

definition EventStatus_of_string :: "string \<Rightarrow> error + EventStatus" where
  "EventStatus_of_string s =
     (if s = ''scheduled'' then Inr SCHEDULED
      else if s = ''cancelled'' then Inr CANCELLED
      else if s = ''completed'' then Inr COMPLETED
      else if s = ''rescheduled'' then Inr RESCHEDULED
      else Inl (ValueError (s @ '' is not a valid EventStatus'')))"

definition dict_to_event :: "world \<Rightarrow> event_dict \<Rightarrow> error + Event" where
  "dict_to_event w d =
     (case d_start_time d of
        None \<Rightarrow> Inl KeyError
      | Some s \<Rightarrow>
          (case parse w s of
             None \<Rightarrow> Inl ParserError
           | Some start \<Rightarrow>
               (case d_end_time d of
                  None \<Rightarrow> Inl KeyError
                | Some e \<Rightarrow>
                    (case parse w e of
                       None \<Rightarrow> Inl ParserError
                     | Some end \<Rightarrow>
                         (case EventStatus_of_string
                                 (case d_status d of None \<Rightarrow> ''scheduled'' | Some st \<Rightarrow> st) of
                            Inl err \<Rightarrow> Inl err
                          | Inr st \<Rightarrow>
                              Event_new (d_event_id d)
                                (case d_title d of None \<Rightarrow> [] | Some t \<Rightarrow> t)
                                start end st)))))"

text \<open>The list comprehension over the events of the user context stops at the first
  dictionary that does not convert.\<close>

fun dicts_to_events :: "world \<Rightarrow> event_dict list \<Rightarrow> error + Event list" where
  "dicts_to_events w [] = Inr []"
| "dicts_to_events w (d # ds) =
     (case dict_to_event w d of
        Inl e \<Rightarrow> Inl e
      | Inr event \<Rightarrow>
          (case dicts_to_events w ds of
             Inl e \<Rightarrow> Inl e
           | Inr events \<Rightarrow> Inr (event # events)))"

text \<open>
  The body of \<open>_get_existing_events\<close> is one \<open>try\<close> block: an exception leaves it with
  the events gathered so far, which the function returns. \<open>aggregate\<close> is that block
  over the outcomes of its three steps.
\<close>

definition aggregate ::
  "(error + Event list) \<Rightarrow> (error + Event list) \<Rightarrow> (error + Event list) \<Rightarrow> Event list" where
  "aggregate google outlook context =
     (let all_events = [] in
      case google of
        Inl e \<Rightarrow> all_events
      | Inr google_events \<Rightarrow>
          (let all_events = all_events @ google_events in
           case outlook of
             Inl e \<Rightarrow> all_events
           | Inr outlook_events \<Rightarrow>
               (let all_events = all_events @ outlook_events in
                case context of
                  Inl e \<Rightarrow> all_events
                | Inr context_events \<Rightarrow> all_events @ context_events)))"

definition context_step :: "world \<Rightarrow> UserContext option \<Rightarrow> error + Event list" where
  "context_step w user_context =
     (case user_context of
        None \<Rightarrow> Inr []
      | Some c \<Rightarrow>
          (if existing_events c \<noteq> [] then dicts_to_events w (existing_events c) else Inr []))"

definition get_existing_events ::
  "world \<Rightarrow> date \<Rightarrow> date \<Rightarrow> UserContext option \<Rightarrow> Event list" where
  "get_existing_events w start_date end_date user_context =
     aggregate (Inr (google_get_events w start_date end_date))
       (Inr (outlook_get_events w start_date end_date))
       (context_step w user_context)"

text \<open>What the user context contributes: its events, or nothing when one of its
  dictionaries does not convert.\<close>

definition context_events :: "world \<Rightarrow> UserContext option \<Rightarrow> Event list" where
  "context_events w user_context =
     (case context_step w user_context of Inl e \<Rightarrow> [] | Inr events \<Rightarrow> events)"

section \<open>The scheduling facade\<close>

definition max_suggestions :: nat where
  "max_suggestions = 10"

definition resolved_preferences :: "UserContext option \<Rightarrow> UserPreferences" where
  "resolved_preferences user_context =
     (case user_context of Some c \<Rightarrow> preferences c | None \<Rightarrow> UserPreferences_default)"

definition resolved_timezone :: "UserContext option \<Rightarrow> string" where
  "resolved_timezone user_context =
     (case user_context of Some c \<Rightarrow> current_timezone c | None \<Rightarrow> ''UTC'')"

text \<open>The \<open>try\<close> block of \<open>find_available_slots\<close>; \<open>find_available_slots\<close> adds the
  handler, which logs and returns the empty list.\<close>

definition find_available_slots_try ::
  "world \<Rightarrow> int \<Rightarrow> datetime option \<Rightarrow> UserContext option \<Rightarrow> date option \<Rightarrow> date option \<Rightarrow>
     bool \<Rightarrow> (error + TimeSlot list) option" where
  "find_available_slots_try w duration preferred_time user_context start_date end_date
       exclude_weekends =
     (let start_date = (case start_date of None \<Rightarrow> today w | Some d \<Rightarrow> d);
          end_date = (case end_date of None \<Rightarrow> start_date + 14 | Some d \<Rightarrow> d);
          prefs = resolved_preferences user_context
      in case tz_database w (resolved_timezone user_context) of
           None \<Rightarrow> Some (Inl UnknownTimeZoneError)
         | Some tz \<Rightarrow>
             (let events = get_existing_events w start_date end_date user_context
              in case generate_potential_slots start_date end_date duration prefs tz
                        exclude_weekends of
                   None \<Rightarrow> None
                 | Some (Inl e) \<Rightarrow> Some (Inl e)
                 | Some (Inr potential_slots) \<Rightarrow>
                     (let available_slots =
                            filter_conflicting_slots potential_slots events prefs;
                          scored_slots =
                            score_time_slots available_slots preferred_time prefs tz
                      in Some (Inr (take max_suggestions scored_slots)))))"

definition find_available_slots ::
  "world \<Rightarrow> int \<Rightarrow> datetime option \<Rightarrow> UserContext option \<Rightarrow> date option \<Rightarrow> date option \<Rightarrow>
     bool \<Rightarrow> (error + TimeSlot list) option" where
  "find_available_slots w duration preferred_time user_context start_date end_date
       exclude_weekends =
     (case find_available_slots_try w duration preferred_time user_context start_date end_date
             exclude_weekends of
        None \<Rightarrow> None
      | Some (Inl e) \<Rightarrow> Some (Inr [])
      | Some (Inr slots) \<Rightarrow> Some (Inr slots))"



text \<open>The operations that dispatch on the name of the provider. \<open>create_event\<close> and
  \<open>update_event\<close> log and raise again; \<open>cancel_event\<close> and
  \<open>suggest_reschedule_options\<close> log and return \<open>False\<close> and the empty list.\<close>

definition unsupported_provider :: "string \<Rightarrow> error" where
  "unsupported_provider calendar_provider =
     ValueError (''Unsupported calendar provider: '' @ calendar_provider)"

definition create_event ::
  "world \<Rightarrow> string \<Rightarrow> datetime \<Rightarrow> datetime \<Rightarrow> string \<Rightarrow> error + Event" where
  "create_event w t start end calendar_provider =
     (if calendar_provider = ''google'' then google_create_event w t start end
      else if calendar_provider = ''outlook'' then outlook_create_event w t start end
      else Inl (unsupported_provider calendar_provider))"

definition update_event ::
  "world \<Rightarrow> string \<Rightarrow> (string \<times> string) list \<Rightarrow> string \<Rightarrow> error + Event" where
  "update_event w i updates calendar_provider =
     (if calendar_provider = ''google'' then google_update_event w i updates
      else if calendar_provider = ''outlook'' then outlook_update_event w i updates
      else Inl (unsupported_provider calendar_provider))"

definition cancel_event_try :: "world \<Rightarrow> string \<Rightarrow> string \<Rightarrow> error + bool" where
  "cancel_event_try w i calendar_provider =
     (if calendar_provider = ''google'' then google_cancel_event w i
      else if calendar_provider = ''outlook'' then outlook_cancel_event w i
      else Inl (unsupported_provider calendar_provider))"

definition cancel_event :: "world \<Rightarrow> string \<Rightarrow> string \<Rightarrow> error + bool" where
  "cancel_event w i calendar_provider =
     (case cancel_event_try w i calendar_provider of
        Inl e \<Rightarrow> Inr False
      | Inr success \<Rightarrow> Inr success)"

text \<open>\<open>int(x / 60)\<close> truncates towards zero.\<close>

definition minutes_between :: "datetime \<Rightarrow> datetime \<Rightarrow> int" where
  "minutes_between e s =
     (let d = dt_sub e s
      in if 0 \<le> d then d div us_per_minute else - ((- d) div us_per_minute))"

definition suggest_reschedule_options_try ::
  "world \<Rightarrow> string \<Rightarrow> int option \<Rightarrow> string \<Rightarrow> (error + TimeSlot list) option" where
  "suggest_reschedule_options_try w i new_duration calendar_provider =
     (case (if calendar_provider = ''google'' then Inr (google_get_event w i)
            else if calendar_provider = ''outlook'' then Inr (outlook_get_event w i)
            else Inl (unsupported_provider calendar_provider)) of
        Inl e \<Rightarrow> Some (Inl e)
      | Inr original_event \<Rightarrow>
          (case (if new_duration \<noteq> None \<and> new_duration \<noteq> Some 0
                 then Inr (the new_duration)
                 else (case original_event of
                         None \<Rightarrow> Inl AttributeError
                       | Some ev \<Rightarrow>
                           Inr (minutes_between (event_end_time ev) (event_start_time ev)))) of
             Inl e \<Rightarrow> Some (Inl e)
           | Inr duration \<Rightarrow>
               (case original_event of
                  None \<Rightarrow> Some (Inl AttributeError)
                | Some ev \<Rightarrow>
                    find_available_slots w duration (Some (event_start_time ev)) None
                      (Some (today w)) (Some (today w + 30)) True)))"

definition suggest_reschedule_options ::
  "world \<Rightarrow> string \<Rightarrow> int option \<Rightarrow> string \<Rightarrow> (error + TimeSlot list) option" where
  "suggest_reschedule_options w i new_duration calendar_provider =
     (case suggest_reschedule_options_try w i new_duration calendar_provider of
        None \<Rightarrow> None
      | Some (Inl e) \<Rightarrow> Some (Inr [])
      | Some (Inr slots) \<Rightarrow> Some (Inr slots))"

section \<open>Derived notions for the properties\<close>

text \<open>The working hours of a date as \<open>_generate_day_slots\<close> computes them.\<close>

definition work_start_dt :: "tzinfo \<Rightarrow> UserPreferences \<Rightarrow> date \<Rightarrow> datetime" where
  "work_start_dt tz prefs day = localize tz (combine day (work_start_time prefs))"

definition work_end_dt :: "tzinfo \<Rightarrow> UserPreferences \<Rightarrow> date \<Rightarrow> datetime" where
  "work_end_dt tz prefs day = localize tz (combine day (work_end_time prefs))"

text \<open>What the day loop promises of a slot it appends from the cursor \<open>cur\<close> on, and
  the invariant of the loop: it returns only from a state where the cursor moves forward,
  and its result extends the slots gathered so far with such slots.\<close>

definition day_slot :: "timedelta \<Rightarrow> datetime \<Rightarrow> datetime \<Rightarrow> TimeSlot \<Rightarrow> bool" where
  "day_slot d we cur s \<longleftrightarrow>
     end_time s = dt_add (start_time s) d \<and> dt_le (end_time s) we \<and>
     utcoffset (start_time s) = utcoffset cur \<and> wall cur \<le> wall (start_time s) \<and> 0 < d"

definition day_slots_inv ::
  "timedelta \<Rightarrow> timedelta \<Rightarrow> datetime \<Rightarrow> TimeSlot list \<Rightarrow> datetime \<Rightarrow>
     error + TimeSlot list \<Rightarrow> bool" where
  "day_slots_inv d b we acc cur y \<longleftrightarrow>
     \<not> (0 < d \<and> d + b \<le> 0 \<and> dt_le (dt_add cur d) we) \<and>
     (\<forall>res. y = Inr res \<longrightarrow> (\<exists>new. res = acc @ new \<and> (\<forall>s \<in> set new. day_slot d we cur s)))"

text \<open>A slot generated for some retained date of a range.\<close>

definition potential_slot ::
  "date \<Rightarrow> date \<Rightarrow> int \<Rightarrow> UserPreferences \<Rightarrow> tzinfo \<Rightarrow> bool \<Rightarrow> TimeSlot \<Rightarrow> bool" where
  "potential_slot first_date last_date duration prefs tz exclude_weekends s \<longleftrightarrow>
     (\<exists>day. first_date \<le> day \<and> day \<le> last_date \<and>
        \<not> (exclude_weekends \<and> 5 \<le> date_weekday day) \<and>
        day_slot (timedelta_minutes duration) (work_end_dt tz prefs day)
          (work_start_dt tz prefs day) s)"


text \<open>The date range of \<open>find_available_slots\<close> after its defaults.\<close>

definition resolved_start_date :: "world \<Rightarrow> date option \<Rightarrow> date" where
  "resolved_start_date w start_date = (case start_date of None \<Rightarrow> today w | Some d \<Rightarrow> d)"

definition resolved_end_date :: "world \<Rightarrow> date option \<Rightarrow> date option \<Rightarrow> date" where
  "resolved_end_date w start_date end_date =
     (case end_date of None \<Rightarrow> resolved_start_date w start_date + 14 | Some d \<Rightarrow> d)"

section \<open>Sample data\<close>

text \<open>UTC datetimes and a world with unreachable collaborators, for the concrete cases
  below. Day 19737 is Monday 2024-01-15.\<close>

definition utc :: tzinfo where
  "utc naive = 0"

definition utc_datetime :: "date \<Rightarrow> int \<Rightarrow> int \<Rightarrow> datetime" where
  "utc_datetime d h m = localize utc (combine d (h * us_per_hour + m * us_per_minute))"

definition slot_at :: "datetime \<Rightarrow> datetime \<Rightarrow> TimeSlot" where
  "slot_at s e = \<lparr>start_time = s, end_time = e, confidence = 8 / 10\<rparr>"

definition event_at :: "datetime \<Rightarrow> datetime \<Rightarrow> EventStatus \<Rightarrow> Event" where
  "event_at s e st =
     \<lparr>event_id = None, title = ''busy'', event_start_time = s, event_end_time = e,
      event_status = st\<rparr>"

definition monday_slots :: "TimeSlot list" where
  "monday_slots =
     [slot_at (utc_datetime 19737 9 0) (utc_datetime 19737 10 0),
      slot_at (utc_datetime 19737 10 15) (utc_datetime 19737 11 15),
      slot_at (utc_datetime 19737 11 30) (utc_datetime 19737 12 30),
      slot_at (utc_datetime 19737 12 45) (utc_datetime 19737 13 45),
      slot_at (utc_datetime 19737 14 0) (utc_datetime 19737 15 0),
      slot_at (utc_datetime 19737 15 15) (utc_datetime 19737 16 15)]"


definition offline_world :: world where
  "offline_world =
     \<lparr>today = 19737,
      tz_database = (\<lambda>name. if name = ''UTC'' then Some utc else None),
      parse = (\<lambda>s. None),
      google_request_events = (\<lambda>s e. Inl CollaboratorError),
      outlook_request_events = (\<lambda>s e. Inl CollaboratorError),
      google_create_event = (\<lambda>t s e. Inl CollaboratorError),
      outlook_create_event = (\<lambda>t s e. Inl CollaboratorError),
      google_update_event = (\<lambda>i u. Inl CollaboratorError),
      outlook_update_event = (\<lambda>i u. Inl CollaboratorError),
      google_cancel_event = (\<lambda>i. Inl CollaboratorError),
      outlook_cancel_event = (\<lambda>i. Inl CollaboratorError),
      google_get_event = (\<lambda>i. None),
      outlook_get_event = (\<lambda>i. None)\<rparr>"

text \<open>A world whose Google collaborator is unreachable, whose Outlook collaborator
  reports one meeting and one item that does not convert, and whose parser reads two
  instants; a context with one cancelled event; preferences with a one-hour working day.\<close>

definition sample_parse :: "string \<Rightarrow> datetime option" where
  "sample_parse s =
     (if s = ''2024-01-15T14:00:00+00:00'' then Some (utc_datetime 19737 14 0)
      else if s = ''2024-01-15T15:00:00+00:00'' then Some (utc_datetime 19737 15 0)
      else None)"

definition sample_world :: world where
  "sample_world =
     offline_world
       \<lparr>parse := sample_parse,
        outlook_request_events :=
          (\<lambda>s e. Inr (Some [Some (event_at (utc_datetime 19737 10 0) (utc_datetime 19737 11 0)
                                    SCHEDULED), None]))\<rparr>"

definition sample_context :: "string \<Rightarrow> UserContext" where
  "sample_context tzname =
     \<lparr>user_id = ''test_user_123'', email = ''test@example.com'',
      preferences = UserPreferences_default, current_timezone = tzname,
      existing_events =
        [\<lparr>d_event_id = Some ''event_3'', d_title = Some ''Cancelled Meeting'',
          d_start_time = Some ''2024-01-15T14:00:00+00:00'',
          d_end_time = Some ''2024-01-15T15:00:00+00:00'',
          d_status = Some ''cancelled''\<rparr>]\<rparr>"


text \<open>The ranking of the slots of Monday 2024-01-15 under the default preferences.\<close>

definition monday_ranked :: "TimeSlot list" where
  "monday_ranked =
     [slot_at (utc_datetime 19737 9 0) (utc_datetime 19737 10 0)\<lparr>confidence := 9 / 10\<rparr>,
      slot_at (utc_datetime 19737 10 15) (utc_datetime 19737 11 15)\<lparr>confidence := 9 / 10\<rparr>,
      slot_at (utc_datetime 19737 11 30) (utc_datetime 19737 12 30)\<lparr>confidence := 8 / 10\<rparr>,
      slot_at (utc_datetime 19737 14 0) (utc_datetime 19737 15 0)\<lparr>confidence := 8 / 10\<rparr>,
      slot_at (utc_datetime 19737 15 15) (utc_datetime 19737 16 15)\<lparr>confidence := 8 / 10\<rparr>,
      slot_at (utc_datetime 19737 12 45) (utc_datetime 19737 13 45)\<lparr>confidence := 7 / 10\<rparr>]"

section \<open>Concrete runs\<close>


lemma monday_found:
  "find_available_slots offline_world 60 None None (Some 19737) (Some 19737) True =
     Some (Inr monday_ranked)"
  by code_simp


lemma negative_try:
  "find_available_slots_try offline_world (- 30) None None (Some 19737) (Some 19737) True =
     Some (Inl ValidationError)"
  by code_simp

lemma negative_found:
  "find_available_slots offline_world (- 30) None None (Some 19737) (Some 19737) True =
     Some (Inr [])"
  by code_simp



section \<open>Properties of the conflict filter\<close>

lemma is_available_iff:
  "is_available slot prefs events \<longleftrightarrow>
     \<not> spec_rejected (buffer_time prefs) events slot"
proof (induction events)
  case Nil
  show ?case by (simp add: spec_rejected_def)
next
  case (Cons event events)
  have step: "spec_rejected b (event # events) slot \<longleftrightarrow>
      (event_status event \<noteq> CANCELLED \<and>
        (spec_overlap slot event \<or> spec_buffer_before b slot event \<or>
         spec_buffer_after b slot event)) \<or> spec_rejected b events slot" for b
    by (auto simp: spec_rejected_def)
  show ?case
    unfolding step using Cons.IH
    by (auto simp: Let_def slots_overlap_def spec_overlap_def spec_buffer_before_def
        spec_buffer_after_def dt_lt_def dt_gt_def dt_sub_def timedelta_minutes_def)
qed

lemma filter_conflicting_slots_filter:
  "filter_conflicting_slots slots events prefs =
     filter (\<lambda>slot. \<not> spec_rejected (buffer_time prefs) events slot) slots"
  by (induction slots) (simp_all add: is_available_iff)

text \<open>
  Claim C1. The conflict filter keeps exactly the candidate slots for which no busy
  interval with a status other than cancelled overlaps the slot or lies closer to it
  than the buffer, before or after; the comparisons with the buffer are strict, so a gap
  equal to the buffer is accepted; the kept slots are the input sequence filtered, in
  their original order.
\<close>

theorem filter_conflicting_slots_spec:
  "filter_conflicting_slots slots events prefs =
     filter (\<lambda>slot. \<not> spec_rejected (buffer_time prefs) events slot) slots"
  by (rule filter_conflicting_slots_filter)

theorem filter_conflicting_slots_spec_witness:
  "filter_conflicting_slots
     [slot_at (utc_datetime 19737 8 0) (utc_datetime 19737 9 0),
      slot_at (utc_datetime 19737 10 30) (utc_datetime 19737 11 30),
      slot_at (utc_datetime 19737 11 15) (utc_datetime 19737 12 15),
      slot_at (utc_datetime 19737 11 10) (utc_datetime 19737 12 10),
      slot_at (utc_datetime 19737 8 50) (utc_datetime 19737 9 50),
      slot_at (utc_datetime 19737 14 0) (utc_datetime 19737 15 0)]
     [event_at (utc_datetime 19737 10 0) (utc_datetime 19737 11 0) SCHEDULED,
      event_at (utc_datetime 19737 14 0) (utc_datetime 19737 15 0) CANCELLED]
     UserPreferences_default =
   [slot_at (utc_datetime 19737 8 0) (utc_datetime 19737 9 0),
    slot_at (utc_datetime 19737 11 15) (utc_datetime 19737 12 15),
    slot_at (utc_datetime 19737 14 0) (utc_datetime 19737 15 0)]"
  unfolding filter_conflicting_slots_spec
  by (simp add: spec_rejected_def spec_overlap_def spec_buffer_before_def spec_buffer_after_def
      slot_at_def event_at_def utc_datetime_def localize_def utc_def combine_def instant_def
      UserPreferences_default_def us_per_day_def us_per_hour_def us_per_minute_def)

section \<open>Properties of the slot scorer\<close>

lemma weekday_range: "date_weekday d < 5 \<longleftrightarrow> date_weekday d \<in> {0, 1, 2, 3, 4}"
proof -
  have "0 \<le> date_weekday d" by (simp add: date_weekday_def)
  then show ?thesis by auto
qed

text \<open>The running sum of \<open>_calculate_slot_score\<close>, over any bonus and any five tests.\<close>

lemma score_steps:
  fixes t :: real
  shows "(let score = 5 / 10;
              score = score + t;
              score = (if c1 then score + 2 / 10 else score);
              score = (if c2 then score + 1 / 10 else score);
              score = (if c3 then score - 2 / 10 else score);
              score = (if c4 then score - 1 / 10 else score);
              score = (if c5 then score + 1 / 10 else score)
          in max 0 (min 1 score)) =
         clamp (0.5 + t + (if c1 then 0.2 else 0) + (if c2 then 0.1 else 0)
                - (if c3 then 0.2 else 0) - (if c4 then 0.1 else 0)
                + (if c5 then 0.1 else 0)) 0 1"
  by (cases c1; cases c2; cases c3; cases c4; cases c5) (simp_all add: clamp_def)

lemma calculate_slot_score_spec:
  "calculate_slot_score slot p prefs tz =
     clamp (spec_S slot p (work_start_time prefs) (work_end_time prefs)) 0 1"
proof -
  define t :: real where "t = (case p of None \<Rightarrow> 0 | Some q \<Rightarrow>
      max 0 (0.5 - \<bar>real_of_int (instant (start_time slot) - instant q) / 1000000\<bar> / 86400))"
  have first: "(case p of None \<Rightarrow> 5 / 10
                | Some q \<Rightarrow> 5 / 10 +
                    max 0 (5 / 10 - \<bar>total_seconds (dt_sub (start_time slot) q)\<bar> / (24 * 3600)))
               = 5 / 10 + t"
    by (cases p) (simp_all add: t_def total_seconds_def dt_sub_def)
  have "calculate_slot_score slot p prefs tz =
      (let score = 5 / 10;
           score = score + t;
           score = (if work_start_time prefs \<le> dt_time (start_time slot) \<and>
                       dt_time (start_time slot) \<le> work_end_time prefs
                    then score + 2 / 10 else score);
           score = (if time_hour (dt_time (start_time slot)) < 12 then score + 1 / 10 else score);
           score = (if time_hour (dt_time (start_time slot)) < 8 \<or>
                       time_hour (dt_time (start_time slot)) > 17
                    then score - 2 / 10 else score);
           score = (if 11 \<le> time_hour (dt_time (start_time slot)) \<and>
                       time_hour (dt_time (start_time slot)) \<le> 13
                    then score - 1 / 10 else score);
           score = (if dt_weekday (start_time slot) < 5 then score + 1 / 10 else score)
       in max 0 (min 1 score))"
    unfolding calculate_slot_score_def Let_def first by (rule refl)
  also have "\<dots> = clamp (spec_S slot p (work_start_time prefs) (work_end_time prefs)) 0 1"
    unfolding score_steps spec_S_def t_def [symmetric] dt_weekday_def weekday_range
    by (rule refl)
  finally show ?thesis .
qed

lemma spec_S_confidence: "spec_S (s\<lparr>confidence := c\<rparr>) p a b = spec_S s p a b"
  by (simp add: spec_S_def cong: option.case_cong)

lemma scored_slots_loop_map:
  "scored_slots_loop slots p prefs tz =
     map (\<lambda>slot. slot\<lparr>confidence :=
            clamp (spec_S slot p (work_start_time prefs) (work_end_time prefs)) 0 1\<rparr>) slots"
  by (induction slots) (simp_all add: calculate_slot_score_spec clamp_def Let_def)

lemma set_sort_reverse: "set (sort_reverse k xs) = set xs"
  by (simp add: sort_reverse_def)

lemma score_time_slots_map:
  "score_time_slots slots p prefs tz =
     sort_reverse confidence
       (map (\<lambda>slot. slot\<lparr>confidence :=
          clamp (spec_S slot p (work_start_time prefs) (work_end_time prefs)) 0 1\<rparr>) slots)"
  by (simp add: score_time_slots_def scored_slots_loop_map)

lemma score_time_slots_clamped:
  "\<forall>s \<in> set (score_time_slots slots p prefs tz).
      confidence s = clamp (spec_S s p (work_start_time prefs) (work_end_time prefs)) 0 1"
  by (auto simp: score_time_slots_def scored_slots_loop_map set_sort_reverse spec_S_confidence)



section \<open>Properties of the ranking\<close>

lemma sorted_desc: "sorted (map (\<lambda>x. - k x) (sort_reverse k xs))"
  by (simp add: sort_reverse_def)

lemma sort_reverse_adjacent:
  assumes "i + 1 < length (sort_reverse k xs)"
  shows "k (sort_reverse k xs ! i) \<ge> k (sort_reverse k xs ! (i + 1))"
proof -
  let ?r = "sort_reverse k xs"
  have "sorted (map (\<lambda>x. - k x) ?r)" by (rule sorted_desc)
  moreover have "i \<le> i + 1" by simp
  moreover have "i + 1 < length (map (\<lambda>x. - k x) ?r)" using assms by simp
  ultimately have "map (\<lambda>x. - k x) ?r ! i \<le> map (\<lambda>x. - k x) ?r ! (i + 1)"
    by (rule sorted_nth_mono)
  then show ?thesis using assms by simp
qed

lemma sort_reverse_stable:
  "filter (\<lambda>x. k x = c) (sort_reverse k xs) = filter (\<lambda>x. k x = c) xs"
proof -
  have "filter (\<lambda>x. - k x = - c) (sort_key (\<lambda>x. - k x) xs) = filter (\<lambda>x. - k x = - c) xs"
    by (rule sort_key_stable)
  then show ?thesis by (simp add: sort_reverse_def)
qed

lemma sort_reverse_sorted_id:
  "sorted (map (\<lambda>x. - k x) xs) \<Longrightarrow> sort_reverse k xs = xs"
  unfolding sort_reverse_def by (rule sort_key_id_if_sorted)

lemma scored_slots_loop_fixed:
  assumes "\<forall>s \<in> set ys. confidence s =
     clamp (spec_S s p (work_start_time prefs) (work_end_time prefs)) 0 1"
  shows "scored_slots_loop ys p prefs tz = ys"
  using assms by (induction ys) (simp_all add: calculate_slot_score_spec clamp_def Let_def)

text \<open>
  Claim C4. The output of the scorer is in descending order of confidence (each slot has
  a confidence at least that of its successor); the slots of any one confidence appear
  in the order in which the scorer received them, whose start times are those of its
  input; and scoring the output again with the same arguments gives the same list. The
  scorer, like the whole pipeline, is a function of its arguments: equal inputs give
  equal ordered outputs.
\<close>

theorem score_time_slots_sorted_stable:
  "(\<forall>i. i + 1 < length (score_time_slots slots p prefs tz) \<longrightarrow>
      confidence (score_time_slots slots p prefs tz ! i) \<ge>
      confidence (score_time_slots slots p prefs tz ! (i + 1))) \<and>
   (\<forall>c. filter (\<lambda>s. confidence s = c) (score_time_slots slots p prefs tz) =
        filter (\<lambda>s. confidence s = c) (scored_slots_loop slots p prefs tz)) \<and>
   map start_time (scored_slots_loop slots p prefs tz) = map start_time slots \<and>
   score_time_slots (score_time_slots slots p prefs tz) p prefs tz =
     score_time_slots slots p prefs tz"
proof (intro conjI allI impI)
  fix i assume "i + 1 < length (score_time_slots slots p prefs tz)"
  then show "confidence (score_time_slots slots p prefs tz ! i) \<ge>
      confidence (score_time_slots slots p prefs tz ! (i + 1))"
    unfolding score_time_slots_def by (rule sort_reverse_adjacent)
next
  fix c
  show "filter (\<lambda>s. confidence s = c) (score_time_slots slots p prefs tz) =
        filter (\<lambda>s. confidence s = c) (scored_slots_loop slots p prefs tz)"
    unfolding score_time_slots_def by (rule sort_reverse_stable)
next
  show "map start_time (scored_slots_loop slots p prefs tz) = map start_time slots"
    by (induction slots) (simp_all add: Let_def)
next
  let ?r = "score_time_slots slots p prefs tz"
  have fixed: "scored_slots_loop ?r p prefs tz = ?r"
    using score_time_slots_clamped [of slots p prefs tz] by (rule scored_slots_loop_fixed)
  have "sort_reverse confidence ?r = ?r"
    by (rule sort_reverse_sorted_id) (simp add: score_time_slots_def sorted_desc)
  then show "score_time_slots ?r p prefs tz = ?r"
    using fixed by (simp add: score_time_slots_def [of ?r])
qed

lemma monday_scored:
  "score_time_slots monday_slots None UserPreferences_default utc =
     [slot_at (utc_datetime 19737 9 0) (utc_datetime 19737 10 0)\<lparr>confidence := 9 / 10\<rparr>,
      slot_at (utc_datetime 19737 10 15) (utc_datetime 19737 11 15)\<lparr>confidence := 9 / 10\<rparr>,
      slot_at (utc_datetime 19737 11 30) (utc_datetime 19737 12 30)\<lparr>confidence := 8 / 10\<rparr>,
      slot_at (utc_datetime 19737 14 0) (utc_datetime 19737 15 0)\<lparr>confidence := 8 / 10\<rparr>,
      slot_at (utc_datetime 19737 15 15) (utc_datetime 19737 16 15)\<lparr>confidence := 8 / 10\<rparr>,
      slot_at (utc_datetime 19737 12 45) (utc_datetime 19737 13 45)\<lparr>confidence := 7 / 10\<rparr>]"
  by code_simp

theorem score_time_slots_sorted_stable_witness:
  "4 + 1 < length (score_time_slots monday_slots None UserPreferences_default utc) \<and>
   confidence (score_time_slots monday_slots None UserPreferences_default utc ! 4) \<ge>
   confidence (score_time_slots monday_slots None UserPreferences_default utc ! (4 + 1)) \<and>
   score_time_slots monday_slots None UserPreferences_default utc ! 4 =
     slot_at (utc_datetime 19737 15 15) (utc_datetime 19737 16 15)\<lparr>confidence := 8 / 10\<rparr> \<and>
   score_time_slots monday_slots None UserPreferences_default utc ! (4 + 1) =
     slot_at (utc_datetime 19737 12 45) (utc_datetime 19737 13 45)\<lparr>confidence := 7 / 10\<rparr>"
proof -
  let ?r = "score_time_slots monday_slots None UserPreferences_default utc"
  have len: "4 + 1 < length ?r" by (simp add: monday_scored)
  have "\<forall>i. i + 1 < length ?r \<longrightarrow> confidence (?r ! i) \<ge> confidence (?r ! (i + 1))"
    using score_time_slots_sorted_stable [of monday_slots None UserPreferences_default utc]
    by (rule conjunct1)
  then have "4 + 1 < length ?r \<longrightarrow> confidence (?r ! 4) \<ge> confidence (?r ! (4 + 1))"
    by (rule spec)
  with len have ge: "confidence (?r ! 4) \<ge> confidence (?r ! (4 + 1))" by (rule rev_mp)
  have at4: "?r ! 4 =
      slot_at (utc_datetime 19737 15 15) (utc_datetime 19737 16 15)\<lparr>confidence := 8 / 10\<rparr>"
    by (simp add: monday_scored)
  have at5: "?r ! (4 + 1) =
      slot_at (utc_datetime 19737 12 45) (utc_datetime 19737 13 45)\<lparr>confidence := 7 / 10\<rparr>"
    by (simp add: monday_scored)
  from len ge at4 at5 show ?thesis by (intro conjI)
qed

section \<open>Properties of the slot generator\<close>

lemma instant_dt_add: "instant (dt_add a x) = instant a + x"
  by (simp add: instant_def dt_add_def)

lemma wall_dt_add: "wall (dt_add a x) = wall a + x"
  by (simp add: dt_add_def)

lemma utcoffset_dt_add: "utcoffset (dt_add a x) = utcoffset a"
  by (simp add: dt_add_def)

lemma TimeSlot_new_day:
  "0 \<le> c \<Longrightarrow> c \<le> 1 \<Longrightarrow> TimeSlot_new cur (dt_add cur d) c =
     (if d \<le> 0 then Inl ValidationError
      else Inr \<lparr>start_time = cur, end_time = dt_add cur d, confidence = c\<rparr>)"
  by (simp add: TimeSlot_new_def dt_le_def instant_dt_add)

lemma day_slots_loop_unfold:
  "day_slots_loop d b we acc cur =
     (if dt_le (dt_add cur d) we then
        (if d \<le> 0 then Some (Inl ValidationError)
         else day_slots_loop d b we
                (acc @ [\<lparr>start_time = cur, end_time = dt_add cur d, confidence = 8 / 10\<rparr>])
                (dt_add (dt_add cur d) b))
      else Some (Inr acc))"
  by (subst day_slots_loop.simps) (simp add: TimeSlot_new_day Let_def)

lemma day_slots_loop_partial:
  assumes "day_slots_loop d b we acc cur = Some y"
  shows "day_slots_inv d b we acc cur y"
  using assms
proof (induction rule: day_slots_loop.raw_induct [rotated 1, consumes 1, case_names step])
  case (step f d b we acc cur y)
  let ?slot = "\<lparr>start_time = cur, end_time = dt_add cur d, confidence = 8 / 10\<rparr>"
  let ?next = "dt_add (dt_add cur d) b"
  show ?case
  proof (cases "dt_le (dt_add cur d) we")
    case False
    with step.hyps show ?thesis by (auto simp: day_slots_inv_def)
  next
    case cond: True
    show ?thesis
    proof (cases "d \<le> 0")
      case True
      with cond step.hyps show ?thesis by (auto simp: TimeSlot_new_day day_slots_inv_def Let_def)
    next
      case False
      with cond step.hyps have call: "f d b we (acc @ [?slot]) ?next = Some y"
        by (simp add: TimeSlot_new_day Let_def)
      have IH: "day_slots_inv d b we (acc @ [?slot]) ?next y"
        using call by (rule step.IH)
      have pos: "0 < d + b"
      proof (rule ccontr)
        assume neg: "\<not> 0 < d + b"
        with cond have "dt_le (dt_add ?next d) we"
          by (simp add: dt_le_def instant_dt_add)
        with IH False neg show False by (simp add: day_slots_inv_def)
      qed
      have "\<exists>new. res = acc @ new \<and> (\<forall>s \<in> set new. day_slot d we cur s)"
        if "y = Inr res" for res
      proof -
        from IH that obtain new where new: "res = (acc @ [?slot]) @ new"
          and all: "\<forall>s \<in> set new. day_slot d we ?next s"
          unfolding day_slots_inv_def by blast
        have "res = acc @ (?slot # new)" using new by simp
        moreover have "\<forall>s \<in> set (?slot # new). day_slot d we cur s"
          using all cond False pos by (auto simp: day_slot_def wall_dt_add utcoffset_dt_add)
        ultimately show ?thesis by blast
      qed
      with pos show ?thesis by (simp add: day_slots_inv_def)
    qed
  qed
qed

lemma day_slots_loop_nonpos:
  "d \<le> 0 \<Longrightarrow> day_slots_loop d b we acc cur =
     (if dt_le (dt_add cur d) we then Some (Inl ValidationError) else Some (Inr acc))"
  by (subst day_slots_loop_unfold) simp


lemma timedelta_minutes_sign:
  "timedelta_minutes n \<le> 0 \<longleftrightarrow> n \<le> 0" "0 < timedelta_minutes n \<longleftrightarrow> 0 < n"
  "0 \<le> timedelta_minutes n \<longleftrightarrow> 0 \<le> n"
  by (simp_all add: timedelta_minutes_def us_per_minute_def zero_less_mult_iff
      mult_le_0_iff zero_le_mult_iff)

lemma generate_day_slots_loop:
  "generate_day_slots day duration prefs tz =
     day_slots_loop (timedelta_minutes duration) (timedelta_minutes (buffer_time prefs))
       (work_end_dt tz prefs day) [] (work_start_dt tz prefs day)"
  by (simp add: generate_day_slots_def work_start_dt_def work_end_dt_def Let_def)


lemma generate_day_slots_nonpos:
  assumes "duration \<le> 0"
  shows "generate_day_slots day duration prefs tz = Some (Inl ValidationError) \<or>
         generate_day_slots day duration prefs tz = Some (Inr [])"
  using assms by (simp add: generate_day_slots_loop day_slots_loop_nonpos timedelta_minutes_sign)

lemma generate_day_slots_partial:
  assumes "generate_day_slots day duration prefs tz = Some (Inr res)"
  shows "\<forall>s \<in> set res. day_slot (timedelta_minutes duration) (work_end_dt tz prefs day)
           (work_start_dt tz prefs day) s"
proof -
  from assms have "day_slots_inv (timedelta_minutes duration)
      (timedelta_minutes (buffer_time prefs)) (work_end_dt tz prefs day) []
      (work_start_dt tz prefs day) (Inr res)"
    unfolding generate_day_slots_loop by (rule day_slots_loop_partial)
  then show ?thesis by (simp add: day_slots_inv_def)
qed

lemma potential_slot_later:
  assumes "potential_slot (cur + 1) ed dur prefs tz ex s"
  shows "potential_slot cur ed dur prefs tz ex s"
proof -
  from assms obtain day where "cur + 1 \<le> day" and rest: "day \<le> ed"
    "\<not> (ex \<and> 5 \<le> date_weekday day)"
    "day_slot (timedelta_minutes dur) (work_end_dt tz prefs day) (work_start_dt tz prefs day) s"
    unfolding potential_slot_def by blast
  then have "cur \<le> day" by simp
  with rest show ?thesis unfolding potential_slot_def by blast
qed

lemma potential_slots_loop_partial:
  "potential_slots_loop ed dur prefs tz ex acc cur = Some (Inr res) \<Longrightarrow>
     \<exists>new. res = acc @ new \<and> (\<forall>s \<in> set new. potential_slot cur ed dur prefs tz ex s)"
proof (induction ed dur prefs tz ex acc cur rule: potential_slots_loop.induct)
  case (1 ed dur prefs tz ex acc cur)
  note run = "1.prems" [unfolded potential_slots_loop.simps [of ed dur prefs tz ex acc cur]]
  show ?case
  proof (cases "cur \<le> ed")
    case False
    with run show ?thesis by simp
  next
    case inside: True
    show ?thesis
    proof (cases "ex \<and> 5 \<le> date_weekday cur")
      case True
      with inside run have "potential_slots_loop ed dur prefs tz ex acc (cur + 1) = Some (Inr res)"
        by simp
      with inside True have "\<exists>new. res = acc @ new \<and>
          (\<forall>s \<in> set new. potential_slot (cur + 1) ed dur prefs tz ex s)"
        by (intro "1.IH"(1))
      then show ?thesis using potential_slot_later by blast
    next
      case False
      with inside run obtain day_slots where
        day: "generate_day_slots cur dur prefs tz = Some (Inr day_slots)" and
        rest: "potential_slots_loop ed dur prefs tz ex (acc @ day_slots) (cur + 1) = Some (Inr res)"
        by (auto split: option.splits sum.splits)
      from inside False day rest have "\<exists>new. res = (acc @ day_slots) @ new \<and>
          (\<forall>s \<in> set new. potential_slot (cur + 1) ed dur prefs tz ex s)"
        by (intro "1.IH"(2)) auto
      then obtain new where new: "res = (acc @ day_slots) @ new"
        and later: "\<forall>s \<in> set new. potential_slot (cur + 1) ed dur prefs tz ex s" by blast
      have "\<forall>s \<in> set day_slots. potential_slot cur ed dur prefs tz ex s"
        using generate_day_slots_partial [OF day] inside False
        unfolding potential_slot_def by (intro ballI exI [of _ cur]) auto
      with later potential_slot_later have "\<forall>s \<in> set (day_slots @ new).
          potential_slot cur ed dur prefs tz ex s" by auto
      moreover have "res = acc @ (day_slots @ new)" using new by simp
      ultimately show ?thesis by blast
    qed
  qed
qed


lemma potential_slots_loop_nonpos:
  "dur \<le> 0 \<Longrightarrow>
     potential_slots_loop ed dur prefs tz ex acc cur = Some (Inl ValidationError) \<or>
     potential_slots_loop ed dur prefs tz ex acc cur = Some (Inr acc)"
proof (induction ed dur prefs tz ex acc cur rule: potential_slots_loop.induct)
  case (1 ed dur prefs tz ex acc cur)
  show ?case
  proof (cases "cur \<le> ed")
    case False
    then show ?thesis by (subst (1 2) potential_slots_loop.simps) auto
  next
    case inside: True
    show ?thesis
    proof (cases "ex \<and> 5 \<le> date_weekday cur")
      case True
      have "potential_slots_loop ed dur prefs tz ex acc (cur + 1) =
            Some (Inl ValidationError) \<or>
          potential_slots_loop ed dur prefs tz ex acc (cur + 1) = Some (Inr acc)"
        using inside True "1.prems" by (rule "1.IH"(1))
      with inside True show ?thesis by (subst (1 2) potential_slots_loop.simps) auto
    next
      case False
      from generate_day_slots_nonpos [OF "1.prems", of cur prefs tz] show ?thesis
      proof
        assume "generate_day_slots cur dur prefs tz = Some (Inl ValidationError)"
        with inside False show ?thesis by (subst (1 2) potential_slots_loop.simps) auto
      next
        assume day: "generate_day_slots cur dur prefs tz = Some (Inr [])"
        have "potential_slots_loop ed dur prefs tz ex (acc @ []) (cur + 1) =
              Some (Inl ValidationError) \<or>
            potential_slots_loop ed dur prefs tz ex (acc @ []) (cur + 1) = Some (Inr (acc @ []))"
          using inside False day refl "1.prems" by (rule "1.IH"(2))
        with inside False day show ?thesis by (subst (1 2) potential_slots_loop.simps) auto
      qed
    qed
  qed
qed

lemma generate_potential_slots_partial:
  assumes "generate_potential_slots sd ed dur prefs tz ex = Some (Inr res)"
  shows "\<forall>s \<in> set res. potential_slot sd ed dur prefs tz ex s"
  using potential_slots_loop_partial [of ed dur prefs tz ex "[]" sd res] assms
  by (simp add: generate_potential_slots_def)










section \<open>Properties of the facade\<close>

lemma filter_conflicting_slots_subset:
  "set (filter_conflicting_slots slots events prefs) \<subseteq> set slots"
  by (induction slots) auto

lemma score_time_slots_origin:
  assumes "s \<in> set (score_time_slots slots p prefs tz)"
  shows "\<exists>s0 \<in> set slots. start_time s = start_time s0 \<and> end_time s = end_time s0"
  using assms by (auto simp: score_time_slots_map set_sort_reverse)

lemma length_score_time_slots: "length (score_time_slots slots p prefs tz) = length slots"
  by (simp add: score_time_slots_map sort_reverse_def)

lemma find_available_slots_try_eq:
  "find_available_slots_try w duration p ctx sd ed ex =
     (case tz_database w (resolved_timezone ctx) of
        None \<Rightarrow> Some (Inl UnknownTimeZoneError)
      | Some tz \<Rightarrow>
          (case generate_potential_slots (resolved_start_date w sd) (resolved_end_date w sd ed)
                  duration (resolved_preferences ctx) tz ex of
             None \<Rightarrow> None
           | Some (Inl e) \<Rightarrow> Some (Inl e)
           | Some (Inr potential_slots) \<Rightarrow>
               Some (Inr (take max_suggestions
                 (score_time_slots
                    (filter_conflicting_slots potential_slots
                       (get_existing_events w (resolved_start_date w sd)
                          (resolved_end_date w sd ed) ctx)
                       (resolved_preferences ctx))
                    p (resolved_preferences ctx) tz)))))"
  by (simp add: find_available_slots_try_def resolved_start_date_def resolved_end_date_def
      Let_def split: option.splits sum.splits)

lemma find_available_slots_origin:
  assumes "find_available_slots w duration p ctx sd ed ex = Some (Inr slots)"
    and "s \<in> set slots"
  shows "\<exists>tz s0. tz_database w (resolved_timezone ctx) = Some tz \<and>
           potential_slot (resolved_start_date w sd) (resolved_end_date w sd ed) duration
             (resolved_preferences ctx) tz ex s0 \<and>
           start_time s = start_time s0 \<and> end_time s = end_time s0"
proof -
  from assms have tried: "find_available_slots_try w duration p ctx sd ed ex = Some (Inr slots)"
    by (auto simp: find_available_slots_def split: option.splits sum.splits)
  then obtain tz potential where tz: "tz_database w (resolved_timezone ctx) = Some tz"
    and gen: "generate_potential_slots (resolved_start_date w sd) (resolved_end_date w sd ed)
                duration (resolved_preferences ctx) tz ex = Some (Inr potential)"
    and slots: "slots = take max_suggestions
                 (score_time_slots
                    (filter_conflicting_slots potential
                       (get_existing_events w (resolved_start_date w sd)
                          (resolved_end_date w sd ed) ctx)
                       (resolved_preferences ctx))
                    p (resolved_preferences ctx) tz)"
    unfolding find_available_slots_try_eq by (auto split: option.splits sum.splits)
  from assms(2) slots have "s \<in> set (score_time_slots
                    (filter_conflicting_slots potential
                       (get_existing_events w (resolved_start_date w sd)
                          (resolved_end_date w sd ed) ctx)
                       (resolved_preferences ctx))
                    p (resolved_preferences ctx) tz)"
    by (auto dest: in_set_takeD)
  then obtain s0 where s0: "s0 \<in> set (filter_conflicting_slots potential
                       (get_existing_events w (resolved_start_date w sd)
                          (resolved_end_date w sd ed) ctx)
                       (resolved_preferences ctx))"
    and same: "start_time s = start_time s0 \<and> end_time s = end_time s0"
    using score_time_slots_origin by blast
  from s0 filter_conflicting_slots_subset have "s0 \<in> set potential" by blast
  with generate_potential_slots_partial [OF gen]
  have "potential_slot (resolved_start_date w sd) (resolved_end_date w sd ed) duration
             (resolved_preferences ctx) tz ex s0" by blast
  with tz same show ?thesis by blast
qed

text \<open>
  Claim C6. Every slot that \<open>find_available_slots\<close> returns ends exactly the requested
  number of minutes after it starts.
\<close>

theorem find_available_slots_duration:
  assumes "find_available_slots w duration p ctx sd ed ex = Some (Inr slots)"
  shows "\<forall>s \<in> set slots. dt_sub (end_time s) (start_time s) = timedelta_minutes duration"
proof
  fix s assume "s \<in> set slots"
  with assms obtain tz s0 where
    "potential_slot (resolved_start_date w sd) (resolved_end_date w sd ed) duration
       (resolved_preferences ctx) tz ex s0"
    and "start_time s = start_time s0 \<and> end_time s = end_time s0"
    using find_available_slots_origin by blast
  then show "dt_sub (end_time s) (start_time s) = timedelta_minutes duration"
    by (auto simp: potential_slot_def day_slot_def dt_sub_def instant_dt_add)
qed

theorem find_available_slots_duration_witness:
  "find_available_slots offline_world 60 None None (Some 19737) (Some 19737) True =
     Some (Inr monday_ranked) \<and>
   dt_sub (utc_datetime 19737 13 45) (utc_datetime 19737 12 45) = timedelta_minutes 60"
proof -
  let ?s = "slot_at (utc_datetime 19737 12 45) (utc_datetime 19737 13 45)\<lparr>confidence := 7 / 10\<rparr>"
  have "\<forall>s \<in> set monday_ranked. dt_sub (end_time s) (start_time s) = timedelta_minutes 60"
    using monday_found by (rule find_available_slots_duration)
  moreover have "?s \<in> set monday_ranked" by (simp add: monday_ranked_def)
  ultimately have "dt_sub (end_time ?s) (start_time ?s) = timedelta_minutes 60" by (rule bspec)
  then have "dt_sub (utc_datetime 19737 13 45) (utc_datetime 19737 12 45) = timedelta_minutes 60"
    by (simp add: slot_at_def)
  with monday_found show ?thesis by (rule conjI)
qed






text \<open>
  Claim C5, as the code has it. \<open>find_available_slots\<close> does not check the duration:
  with a duration that is not positive, a retained date either generates nothing or fails
  at the validator of \<open>TimeSlot\<close>, the handler catches the failure, and the caller
  receives the empty list and no error.
\<close>

theorem find_available_slots_nonpositive_duration:
  assumes "duration \<le> 0"
  shows "find_available_slots w duration p ctx sd ed ex = Some (Inr [])"
proof (cases "tz_database w (resolved_timezone ctx)")
  case None
  then show ?thesis by (simp add: find_available_slots_def find_available_slots_try_eq)
next
  case (Some tz)
  from assms have "generate_potential_slots (resolved_start_date w sd)
      (resolved_end_date w sd ed) duration (resolved_preferences ctx) tz ex =
        Some (Inl ValidationError) \<or>
     generate_potential_slots (resolved_start_date w sd)
      (resolved_end_date w sd ed) duration (resolved_preferences ctx) tz ex = Some (Inr [])"
    unfolding generate_potential_slots_def by (rule potential_slots_loop_nonpos)
  with Some show ?thesis
    by (auto simp: find_available_slots_def find_available_slots_try_eq score_time_slots_def
        sort_reverse_def)
qed

theorem find_available_slots_nonpositive_duration_witness:
  "(- 30 :: int) \<le> 0 \<and>
   find_available_slots sample_world (- 30) None (Some (sample_context ''UTC''))
     None None False = Some (Inr [])"
proof -
  have h: "(- 30 :: int) \<le> 0" by simp
  from h have "find_available_slots sample_world (- 30) None (Some (sample_context ''UTC''))
     None None False = Some (Inr [])"
    by (rule find_available_slots_nonpositive_duration)
  with h show ?thesis by (rule conjI)
qed

theorem find_available_slots_invalid_duration_counterexample:
  "find_available_slots_try offline_world (- 30) None None (Some 19737) (Some 19737) True =
     Some (Inl ValidationError) \<and>
   find_available_slots offline_world (- 30) None None (Some 19737) (Some 19737) True =
     Some (Inr [])"
  using negative_try negative_found by (rule conjI)

section \<open>Properties of the aggregator\<close>

lemma aggregate_total:
  "aggregate (Inr g) (Inr out) c = g @ out @ (case c of Inl e \<Rightarrow> [] | Inr events \<Rightarrow> events)"
  by (cases c) (simp_all add: aggregate_def)

text \<open>Were a call of the \<open>try\<close> block to raise, the sources after it would be
  lost with it; the collaborators of the repository never raise from \<open>get_events\<close>.\<close>

lemma aggregate_first_failure: "aggregate (Inl e) out c = []"
  by (simp add: aggregate_def)

lemma get_existing_events_parts:
  "get_existing_events w sd ed ctx =
     google_get_events w sd ed @ outlook_get_events w sd ed @ context_events w ctx"
  by (simp add: get_existing_events_def aggregate_total context_events_def)

text \<open>
  Claim C2. The aggregation is the events of the Google collaborator, then those of the
  Outlook collaborator, then those of the user context. A collaborator whose request
  fails contributes the empty list (its \<open>get_events\<close> catches the failure), and the
  aggregation still returns the events of the other collaborator and of the user
  context: a failing provider never aborts it.
\<close>

theorem get_existing_events_partial_failure:
  "get_existing_events w sd ed ctx =
     google_get_events w sd ed @ outlook_get_events w sd ed @ context_events w ctx \<and>
   (google_request_events w sd ed = Inl e \<longrightarrow>
      google_get_events w sd ed = [] \<and>
      get_existing_events w sd ed ctx = outlook_get_events w sd ed @ context_events w ctx) \<and>
   (outlook_request_events w sd ed = Inl e \<longrightarrow>
      outlook_get_events w sd ed = [] \<and>
      get_existing_events w sd ed ctx = google_get_events w sd ed @ context_events w ctx)"
  by (simp add: get_existing_events_parts google_get_events_def outlook_get_events_def)

theorem get_existing_events_partial_failure_witness:
  "google_request_events sample_world 19737 19737 = Inl CollaboratorError \<and>
   get_existing_events sample_world 19737 19737 (Some (sample_context ''UTC'')) =
     [event_at (utc_datetime 19737 10 0) (utc_datetime 19737 11 0) SCHEDULED,
      \<lparr>event_id = Some ''event_3'', title = ''Cancelled Meeting'',
       event_start_time = utc_datetime 19737 14 0, event_end_time = utc_datetime 19737 15 0,
       event_status = CANCELLED\<rparr>] \<and>
   outlook_get_events sample_world 19737 19737 =
     [event_at (utc_datetime 19737 10 0) (utc_datetime 19737 11 0) SCHEDULED] \<and>
   context_events sample_world (Some (sample_context ''UTC'')) =
     [\<lparr>event_id = Some ''event_3'', title = ''Cancelled Meeting'',
       event_start_time = utc_datetime 19737 14 0, event_end_time = utc_datetime 19737 15 0,
       event_status = CANCELLED\<rparr>]"
proof -
  have g: "google_request_events sample_world 19737 19737 = Inl CollaboratorError"
    by (simp add: sample_world_def offline_world_def)
  have out: "outlook_get_events sample_world 19737 19737 =
     [event_at (utc_datetime 19737 10 0) (utc_datetime 19737 11 0) SCHEDULED]"
    by (simp add: outlook_get_events_def sample_world_def offline_world_def)
  have c: "context_events sample_world (Some (sample_context ''UTC'')) =
     [\<lparr>event_id = Some ''event_3'', title = ''Cancelled Meeting'',
       event_start_time = utc_datetime 19737 14 0, event_end_time = utc_datetime 19737 15 0,
       event_status = CANCELLED\<rparr>]"
    by code_simp
  from get_existing_events_partial_failure
    [of sample_world 19737 19737 "Some (sample_context ''UTC'')" CollaboratorError] g
  have "get_existing_events sample_world 19737 19737 (Some (sample_context ''UTC'')) =
      outlook_get_events sample_world 19737 19737 @
      context_events sample_world (Some (sample_context ''UTC''))" by blast
  with g out c show ?thesis by simp
qed

section \<open>Properties of the availability check\<close>




section \<open>Properties of the provider dispatch\<close>

text \<open>
  Claim C9, as the code has it. With a provider name other than \<open>google\<close> and
  \<open>outlook\<close>, \<open>create_event\<close> and \<open>update_event\<close> raise the \<open>ValueError\<close> for an
  unsupported provider to the caller; \<open>cancel_event\<close> returns \<open>False\<close> and
  \<open>suggest_reschedule_options\<close> returns the empty list, their handlers having caught
  the same error. None of the four reaches a collaborator: the outcome does not depend on
  the world.
\<close>

theorem unknown_provider_outcomes:
  assumes "calendar_provider \<noteq> ''google''" and "calendar_provider \<noteq> ''outlook''"
  shows "create_event w t start end calendar_provider =
           Inl (unsupported_provider calendar_provider) \<and>
         update_event w i updates calendar_provider =
           Inl (unsupported_provider calendar_provider) \<and>
         cancel_event w i calendar_provider = Inr False \<and>
         suggest_reschedule_options w i new_duration calendar_provider = Some (Inr [])"
  using assms
  by (simp add: create_event_def update_event_def cancel_event_def cancel_event_try_def
      suggest_reschedule_options_def suggest_reschedule_options_try_def)

theorem unknown_provider_outcomes_witness:
  "''apple'' \<noteq> ''google'' \<and> ''apple'' \<noteq> ''outlook'' \<and>
   create_event offline_world ''Test Event'' (utc_datetime 19737 14 0) (utc_datetime 19737 15 0)
     ''apple'' = Inl (ValueError ''Unsupported calendar provider: apple'') \<and>
   update_event offline_world ''event_1'' [] ''apple'' =
     Inl (ValueError ''Unsupported calendar provider: apple'') \<and>
   cancel_event offline_world ''event_1'' ''apple'' = Inr False \<and>
   suggest_reschedule_options offline_world ''event_1'' None ''apple'' = Some (Inr [])"
proof -
  have a: "''apple'' \<noteq> ''google''" and b: "''apple'' \<noteq> ''outlook''" by simp_all
  from unknown_provider_outcomes [OF a b, of offline_world "''Test Event''"
      "utc_datetime 19737 14 0" "utc_datetime 19737 15 0" "''event_1''" "[]" None]
  show ?thesis using a b by (simp add: unsupported_provider_def)
qed

theorem cancel_and_reschedule_swallow_counterexample:
  "cancel_event_try offline_world ''event_1'' ''apple'' =
     Inl (ValueError ''Unsupported calendar provider: apple'') \<and>
   cancel_event offline_world ''event_1'' ''apple'' = Inr False \<and>
   suggest_reschedule_options_try offline_world ''event_1'' None ''apple'' =
     Some (Inl (ValueError ''Unsupported calendar provider: apple'')) \<and>
   suggest_reschedule_options offline_world ''event_1'' None ''apple'' = Some (Inr [])"
  by (simp add: cancel_event_def cancel_event_try_def suggest_reschedule_options_def
      suggest_reschedule_options_try_def unsupported_provider_def)

end
